theory Spec2Isabelle
  imports Complex_Main "HOL-Library.List_Lexorder" "HOL-Library.Char_ord"
begin

section \<open>Python strings\<close>

text \<open>
  A Python \<open>str\<close> is a sequence of Unicode code points.  The text that the validator
  reads is modelled as a list of code points (\<open>nat\<close>); \<open>lit\<close> turns a literal of the
  source into that form.
\<close>

type_synonym pystr = "nat list"

definition lit :: "string \<Rightarrow> pystr" where
  "lit s = map of_char s"

text \<open>
  \<open>str.upper()\<close> maps every code point on its own, by the full upper-case mapping
  of the Unicode database: an ASCII letter a-z goes to A-Z and every other ASCII
  character stays; a code point from 128 on goes to one or more code points (for
  example U+00DF to \<open>SS\<close>, U+0131 to \<open>I\<close>, U+017F to \<open>S\<close>).  The Unicode database is
  not part of the source: the mapping of the code points from 128 on is the
  parameter \<open>uc\<close>.
\<close>

definition ascii_upper :: "nat \<Rightarrow> nat" where
  "ascii_upper c = (if 97 \<le> c \<and> c \<le> 122 then c - 32 else c)"

definition char_upper :: "(nat \<Rightarrow> nat list) \<Rightarrow> nat \<Rightarrow> nat list" where
  "char_upper uc c = (if c < 128 then [ascii_upper c] else uc c)"

definition str_upper :: "(nat \<Rightarrow> nat list) \<Rightarrow> pystr \<Rightarrow> pystr" where
  "str_upper uc s = concat (map (char_upper uc) s)"

text \<open>
  The code points that \<open>str.strip()\<close> removes, those for which \<open>str.isspace()\<close>
  holds: U+0009-U+000D, U+001C-U+0020, U+0085, U+00A0, U+1680, U+2000-U+200A,
  U+2028, U+2029, U+202F, U+205F and U+3000.
\<close>

definition is_space :: "nat \<Rightarrow> bool" where
  "is_space c =
     ((9 \<le> c \<and> c \<le> 13) \<or> (28 \<le> c \<and> c \<le> 32) \<or> c = 133 \<or> c = 160 \<or> c = 5760 \<or>
      (8192 \<le> c \<and> c \<le> 8202) \<or> c = 8232 \<or> c = 8233 \<or> c = 8239 \<or> c = 8287 \<or>
      c = 12288)"

definition str_lstrip :: "pystr \<Rightarrow> pystr" where
  "str_lstrip s = dropWhile is_space s"

definition str_rstrip :: "pystr \<Rightarrow> pystr" where
  "str_rstrip s = rev (dropWhile is_space (rev s))"

definition str_strip :: "pystr \<Rightarrow> pystr" where
  "str_strip s = str_rstrip (str_lstrip s)"

definition startswith :: "'a list \<Rightarrow> 'a list \<Rightarrow> bool" where
  "startswith s p = (take (length p) s = p)"

text \<open>\<open>str_in k s\<close> is Python's \<open>k in s\<close> on strings: \<open>k\<close> occurs in \<open>s\<close> as a
  contiguous substring.\<close>

fun str_in :: "'a list \<Rightarrow> 'a list \<Rightarrow> bool" where
  "str_in k [] = (k = [])"
| "str_in k (c # s) = (startswith (c # s) k \<or> str_in k s)"

text \<open>
  An excerpt of the upper-case mapping, for running the validator on concrete texts:
  the entries of U+00DF (sharp s), U+0131 (dotless i) and U+017F (long s); every
  other code point is mapped to itself, as the mapping does with a code point that
  has no upper-case form, such as U+00A0.  It is applied only to texts whose code
  points from 128 on are among these four.
\<close>

definition upper_entries :: "nat \<Rightarrow> nat list" where
  "upper_entries c =
     (if c = 223 then [83, 83] else if c = 305 then [73] else if c = 383 then [83] else [c])"

section \<open>Errors\<close>

text \<open>The exceptions a tool call can end with: the validator's \<open>ValueError\<close> with its
  message, a failure of the database driver (\<open>psycopg2.Error\<close>) and a \<open>KeyError\<close> of a
  dictionary lookup.\<close>

datatype error = ValueError string | DatabaseError string | KeyError string

section \<open>Query validation\<close>

definition FORBIDDEN_KEYWORDS :: "string list" where
  "FORBIDDEN_KEYWORDS =
     [''DROP'', ''DELETE'', ''UPDATE'', ''INSERT'', ''TRUNCATE'',
      ''ALTER'', ''CREATE'', ''GRANT'', ''REVOKE'']"

text \<open>The loop \<open>for keyword in FORBIDDEN_KEYWORDS\<close>: the first keyword found in the
  text raises; running off the end of the list returns \<open>True\<close>.\<close>

fun check_keywords :: "string list \<Rightarrow> pystr \<Rightarrow> error + bool" where
  "check_keywords [] query_upper = Inr True"
| "check_keywords (keyword # rest) query_upper =
     (if str_in (lit keyword) query_upper
      then Inl (ValueError (''Forbidden operation detected: '' @ keyword))
      else check_keywords rest query_upper)"

definition validate_query :: "(nat \<Rightarrow> nat list) \<Rightarrow> pystr \<Rightarrow> error + bool" where
  "validate_query uc query =
     (let query_upper = str_strip (str_upper uc query) in
      if \<not> startswith query_upper (lit ''SELECT'')
      then Inl (ValueError ''Only SELECT queries are permitted'')
      else check_keywords FORBIDDEN_KEYWORDS query_upper)"

text \<open>The specification's reading of rule 2 of the validator, written from its words
  and used only to compare it with \<open>validate_query\<close>: the text begins with the
  \<^emph>\<open>token\<close> \<open>SELECT\<close>, that is, with the six letters followed by the end of the text
  or by a character that cannot continue a word (a letter, a digit, an underscore or
  a code point from 128 on would).\<close>

definition is_word_char :: "nat \<Rightarrow> bool" where
  "is_word_char c =
     ((48 \<le> c \<and> c \<le> 57) \<or> (65 \<le> c \<and> c \<le> 90) \<or> (97 \<le> c \<and> c \<le> 122) \<or> c = 95 \<or>
      128 \<le> c)"

definition spec_begins_with_token_SELECT :: "pystr \<Rightarrow> bool" where
  "spec_begins_with_token_SELECT s =
     (startswith s (lit ''SELECT'') \<and>
      (case drop 6 s of [] \<Rightarrow> True | c # _ \<Rightarrow> \<not> is_word_char c))"

section \<open>Health score\<close>

text \<open>The \<open>CASE\<close> expression of the health-score query, over the two \<open>COUNT\<close>
  columns it reads (SQL \<open>bigint\<close> values).\<close>

definition health_score :: "int \<Rightarrow> int \<Rightarrow> int" where
  "health_score open_tickets high_priority_tickets =
     (if open_tickets = 0 then 100
      else if open_tickets \<le> 2 \<and> high_priority_tickets = 0 then 85
      else if open_tickets \<le> 5 \<and> high_priority_tickets \<le> 1 then 70
      else if high_priority_tickets \<ge> 2 then 40
      else 60)"

text \<open>The same table as data: the guard and the score of each \<open>WHEN\<close> branch, in
  order, the \<open>ELSE\<close> branch last.  Branch \<open>i\<close> is the one taken when its guard holds
  and no earlier guard does.\<close>

definition health_rules :: "((int \<Rightarrow> int \<Rightarrow> bool) \<times> int) list" where
  "health_rules =
     [(\<lambda>ot hp. ot = 0, 100),
      (\<lambda>ot hp. ot \<le> 2 \<and> hp = 0, 85),
      (\<lambda>ot hp. ot \<le> 5 \<and> hp \<le> 1, 70),
      (\<lambda>ot hp. hp \<ge> 2, 40),
      (\<lambda>ot hp. True, 60)]"

definition rule_taken :: "nat \<Rightarrow> int \<Rightarrow> int \<Rightarrow> bool" where
  "rule_taken i ot hp =
     (i < length health_rules \<and> fst (health_rules ! i) ot hp \<and>
      (\<forall>j < i. \<not> fst (health_rules ! j) ot hp))"


section \<open>Rows, parameters and query texts\<close>

text \<open>A value of a result column or of a Python dictionary entry: SQL \<open>NULL\<close> (Python
  \<open>None\<close>), an integer, an exact numeric, a text, a timestamp (seconds since the
  epoch).  A row is what \<open>RealDictCursor\<close> yields: a dictionary from column names to
  values, kept as an association list in column order.\<close>

datatype sqlval = Null | IntV int | NumV rat | TextV string | TimeV int

type_synonym row = "(string \<times> sqlval) list"

text \<open>A bound parameter of \<open>cur.execute(query, params)\<close>: a Python \<open>str\<close> or a finite
  \<open>float\<close> (every finite float is a rational number).\<close>

datatype sqlparam = PText string | PNum rat

text \<open>A triple-quoted query literal of the source: a line feed before every line,
  the last line being the indentation in front of the closing quotes.\<close>

definition sql_text :: "string list \<Rightarrow> string" where
  "sql_text ls = concat (map (\<lambda>l. CHR 0x0A # l) ls)"

definition get_customer_info_sql :: string where
  "get_customer_info_sql =
     sql_text
     [''        SELECT '',
      ''            c.*,'',
      ''            COUNT(t.id) as total_tickets,'',
      ''            COUNT(CASE WHEN t.status = 'Open' THEN 1 END) as open_tickets,'',
      ''            COUNT(CASE WHEN t.status = 'In Progress' THEN 1 END) as in_progress_tickets,'',
      ''            COUNT(CASE WHEN t.priority = 'High' THEN 1 END) as high_priority_tickets,'',
      ''            MAX(t.created_at) as last_ticket_date'',
      ''        FROM customers c'',
      ''        LEFT JOIN support_tickets t ON c.id = t.customer_id'',
      ''        WHERE c.name ILIKE %s OR c.email ILIKE %s'',
      ''        GROUP BY c.id'',
      ''        ORDER BY c.mrr DESC'',
      ''    '']"

definition get_open_tickets_sql :: string where
  "get_open_tickets_sql =
     sql_text
     [''        SELECT '',
      ''            t.id,'',
      ''            t.subject,'',
      ''            t.status,'',
      ''            t.priority,'',
      ''            t.created_at,'',
      ''            c.name as customer_name,'',
      ''            c.subscription_tier,'',
      ''            c.mrr,'',
      ''            c.country,'',
      ''            EXTRACT(DAY FROM NOW() - t.created_at) as days_open'',
      ''        FROM support_tickets t'',
      ''        JOIN customers c ON t.customer_id = c.id'',
      ''        WHERE t.status IN ('Open', 'In Progress')'',
      ''    '']"

definition get_at_risk_customers_sql :: string where
  "get_at_risk_customers_sql =
     sql_text
     [''        SELECT '',
      ''            c.name,'',
      ''            c.email,'',
      ''            c.country,'',
      ''            c.subscription_tier,'',
      ''            c.mrr,'',
      ''            COUNT(t.id) as open_ticket_count,'',
      ''            COUNT(CASE WHEN t.priority = 'High' THEN 1 END) as high_priority_count,'',
      ''            STRING_AGG(t.subject, ' | ') as ticket_subjects,'',
      ''            MAX(t.created_at) as newest_ticket_date,'',
      ''            MAX(EXTRACT(DAY FROM NOW() - t.created_at)) as oldest_ticket_age_days'',
      ''        FROM customers c'',
      ''        JOIN support_tickets t ON c.id = t.customer_id'',
      ''        WHERE t.status IN ('Open', 'In Progress')'',
      ''          AND c.mrr >= %s'',
      ''        GROUP BY c.id, c.name, c.email, c.country, c.subscription_tier, c.mrr'',
      ''        ORDER BY c.mrr DESC'',
      ''    '']"

definition get_customer_health_score_sql :: string where
  "get_customer_health_score_sql =
     sql_text
     [''        WITH customer_metrics AS ('',
      ''            SELECT '',
      ''                c.id,'',
      ''                c.name,'',
      ''                c.subscription_tier,'',
      ''                c.mrr,'',
      ''                EXTRACT(DAY FROM NOW() - c.created_at) as account_age_days,'',
      ''                COUNT(t.id) as total_tickets,'',
      ''                COUNT(CASE WHEN t.status IN ('Open', 'In Progress') THEN 1 END) as open_tickets,'',
      ''                COUNT(CASE WHEN t.priority = 'High' THEN 1 END) as high_priority_tickets,'',
      ''                AVG(EXTRACT(DAY FROM t.resolved_at - t.created_at)) as avg_resolution_days'',
      ''            FROM customers c'',
      ''            LEFT JOIN support_tickets t ON c.id = t.customer_id'',
      ''            WHERE c.name ILIKE %s'',
      ''            GROUP BY c.id'',
      ''        )'',
      ''        SELECT '',
      ''            *,'',
      ''            CASE '',
      ''                WHEN open_tickets = 0 THEN 100'',
      ''                WHEN open_tickets <= 2 AND high_priority_tickets = 0 THEN 85'',
      ''                WHEN open_tickets <= 5 AND high_priority_tickets <= 1 THEN 70'',
      ''                WHEN high_priority_tickets >= 2 THEN 40'',
      ''                ELSE 60'',
      ''            END as health_score'',
      ''        FROM customer_metrics'',
      ''    '']"

section \<open>The database driver and the effects of a tool call\<close>

text \<open>
  What a tool call observes of \<open>psycopg2\<close>:
  \<^item> \<open>connect_result\<close>: \<open>psycopg2.connect\<close> raises (\<open>Some e\<close>) or returns a connection;
  \<^item> \<open>execute_result q ps\<close>: \<open>cur.execute(q, ps)\<close> raises (\<open>Inl e\<close>) or leaves a
    result on the cursor, from which the fetch raises (\<open>Inr (Inl e)\<close>) or yields the
    rows (\<open>Inr (Inr rows)\<close>);
  \<^item> \<open>exit_result raised\<close>: the exit hook of the connection's \<open>with\<close> block, called
    with the information whether an exception is leaving the block, may itself raise.
\<close>

record driver =
  connect_result :: "error option"
  execute_result :: "string \<Rightarrow> sqlparam list \<Rightarrow> error + (error + row list)"
  exit_result :: "bool \<Rightarrow> error option"

text \<open>
  The calls a tool makes on the driver, in order.  \<open>EvConnExit\<close> is the exit hook of
  \<open>with get_db_connection() as conn\<close>; in \<open>psycopg2\<close> it ends the transaction (commit
  when the block is left normally, rollback when an exception leaves it) and leaves
  the connection open.  \<open>EvConnClose\<close> is a call of \<open>conn.close()\<close>.  Logging is not
  part of the model.
\<close>

datatype event =
    EvConnect
  | EvConnectFailed
  | EvConnEnter
  | EvCursor
  | EvExecute string "sqlparam list"
  | EvFetch
  | EvCursorExit bool
  | EvConnExit bool
  | EvConnClose

type_synonym 'a outcome = "(error + 'a) \<times> event list"

definition get_db_connection :: "driver \<Rightarrow> unit outcome" where
  "get_db_connection drv =
     (case connect_result drv of
        Some e \<Rightarrow> (Inl e, [EvConnectFailed])
      | None \<Rightarrow> (Inr (), [EvConnect]))"

text \<open>\<open>with get_db_connection() as conn: body\<close>: when the connection cannot be
  made the exception leaves the function; otherwise the body runs and the exit hook
  is called once, whether the body returned or raised; an exception of the hook
  replaces the body's outcome.\<close>

definition with_connection :: "driver \<Rightarrow> 'a outcome \<Rightarrow> 'a outcome" where
  "with_connection drv body =
     (case get_db_connection drv of
        (Inl e, tr) \<Rightarrow> (Inl e, tr)
      | (Inr _, tr) \<Rightarrow>
          (case body of (r, tr_body) \<Rightarrow>
             ((case exit_result drv (isl r) of Some e \<Rightarrow> Inl e | None \<Rightarrow> r),
              tr @ [EvConnEnter] @ tr_body @ [EvConnExit (isl r)])))"

text \<open>\<open>with conn.cursor() as cur: body\<close>: the cursor is closed when the block is
  left.\<close>

definition with_cursor :: "'a outcome \<Rightarrow> 'a outcome" where
  "with_cursor body =
     (case body of (r, tr_body) \<Rightarrow> (r, [EvCursor] @ tr_body @ [EvCursorExit (isl r)]))"

text \<open>\<open>cur.execute(query, params)\<close> followed by \<open>cur.fetchall()\<close>.\<close>

definition execute_fetchall :: "driver \<Rightarrow> string \<Rightarrow> sqlparam list \<Rightarrow> (row list) outcome" where
  "execute_fetchall drv query params =
     (case execute_result drv query params of
        Inl e \<Rightarrow> (Inl e, [EvExecute query params])
      | Inr pending \<Rightarrow>
          (case pending of
             Inl e \<Rightarrow> (Inl e, [EvExecute query params, EvFetch])
           | Inr rows \<Rightarrow> (Inr rows, [EvExecute query params, EvFetch])))"

text \<open>\<open>cur.execute(query, params)\<close> followed by \<open>cur.fetchone()\<close>: the first row,
  or \<open>None\<close> when there is no row.\<close>

definition execute_fetchone :: "driver \<Rightarrow> string \<Rightarrow> sqlparam list \<Rightarrow> (row option) outcome" where
  "execute_fetchone drv query params =
     (case execute_result drv query params of
        Inl e \<Rightarrow> (Inl e, [EvExecute query params])
      | Inr pending \<Rightarrow>
          (case pending of
             Inl e \<Rightarrow> (Inl e, [EvExecute query params, EvFetch])
           | Inr rows \<Rightarrow>
               (Inr (case rows of [] \<Rightarrow> None | r # _ \<Rightarrow> Some r),
                [EvExecute query params, EvFetch])))"

section \<open>Tools\<close>

text \<open>The arguments of the tools and the texts handed to the driver are lists of 8-bit
  characters, read as the code points below 256; \<open>uc\<close> is the upper-case mapping that
  the validator uses.  \<open>cur.execute(query)\<close> of \<open>query_database\<close> hands over no
  parameters; it is recorded with the empty parameter list.\<close>

definition query_database ::
  "(nat \<Rightarrow> nat list) \<Rightarrow> driver \<Rightarrow> string \<Rightarrow> (row list) outcome" where
  "query_database uc drv query =
     (case validate_query uc (lit query) of
        Inl e \<Rightarrow> (Inl e, [])
      | Inr _ \<Rightarrow> with_connection drv (with_cursor (execute_fetchall drv query [])))"

text \<open>The text of the f-strings \<open>f"No customer found matching '{search}'"\<close>.\<close>

definition no_customer_found :: "string \<Rightarrow> string" where
  "no_customer_found search =
     ''No customer found matching '' @ [CHR 0x27] @ search @ [CHR 0x27]"

text \<open>The query text and the parameters each fixed tool hands to \<open>cur.execute\<close>.\<close>

definition get_customer_info_request :: "string \<Rightarrow> string \<times> sqlparam list" where
  "get_customer_info_request search =
     (let search_pattern = ''%'' @ search @ ''%''
      in (get_customer_info_sql, [PText search_pattern, PText search_pattern]))"

definition get_customer_info :: "driver \<Rightarrow> string \<Rightarrow> (row list) outcome" where
  "get_customer_info drv search =
     with_connection drv (with_cursor
       (case get_customer_info_request search of (query, params) \<Rightarrow>
          (case execute_fetchall drv query params of
             (Inl e, tr) \<Rightarrow> (Inl e, tr)
           | (Inr results, tr) \<Rightarrow>
               (if results = []
                then (Inr [[(''message'', TextV (no_customer_found search))]], tr)
                else (Inr results, tr)))))"

text \<open>\<open>if priority:\<close> is Python truthiness: \<open>None\<close> and the empty string are false.\<close>

definition truthy :: "string option \<Rightarrow> bool" where
  "truthy priority = (case priority of None \<Rightarrow> False | Some p \<Rightarrow> p \<noteq> [])"

definition get_open_tickets_request :: "string option \<Rightarrow> string \<times> sqlparam list" where
  "get_open_tickets_request priority =
     (case (if truthy priority
            then (get_open_tickets_sql @ '' AND t.priority = %s'', [] @ [PText (the priority)])
            else (get_open_tickets_sql, []))
      of (query, params) \<Rightarrow>
        (query @ '' ORDER BY t.priority DESC, t.created_at ASC'', params))"

definition get_open_tickets :: "driver \<Rightarrow> string option \<Rightarrow> (row list) outcome" where
  "get_open_tickets drv priority =
     (case get_open_tickets_request priority of (query, params) \<Rightarrow>
        with_connection drv (with_cursor (execute_fetchall drv query params)))"

definition get_at_risk_customers_request :: "rat \<Rightarrow> string \<times> sqlparam list" where
  "get_at_risk_customers_request min_mrr = (get_at_risk_customers_sql, [PNum min_mrr])"

definition get_at_risk_customers :: "driver \<Rightarrow> rat \<Rightarrow> (row list) outcome" where
  "get_at_risk_customers drv min_mrr =
     (case get_at_risk_customers_request min_mrr of (query, params) \<Rightarrow>
        with_connection drv (with_cursor (execute_fetchall drv query params)))"

definition get_customer_health_score_request :: "string \<Rightarrow> string \<times> sqlparam list" where
  "get_customer_health_score_request customer_name =
     (get_customer_health_score_sql, [PText (''%'' @ customer_name @ ''%'')])"

text \<open>\<open>if not result\<close> holds for \<open>None\<close> and for a dictionary without entries; the
  log line then reads \<open>result['health_score']\<close>, which raises \<open>KeyError\<close> on a row
  without that column.\<close>

definition get_customer_health_score :: "driver \<Rightarrow> string \<Rightarrow> row outcome" where
  "get_customer_health_score drv customer_name =
     with_connection drv (with_cursor
       (case get_customer_health_score_request customer_name of (query, params) \<Rightarrow>
          (case execute_fetchone drv query params of
             (Inl e, tr) \<Rightarrow> (Inl e, tr)
           | (Inr result, tr) \<Rightarrow>
               (case result of
                  None \<Rightarrow> (Inr [(''error'', TextV (no_customer_found customer_name))], tr)
                | Some r \<Rightarrow>
                    if r = []
                    then (Inr [(''error'', TextV (no_customer_found customer_name))], tr)
                    else (case map_of r ''health_score'' of
                            None \<Rightarrow> (Inl (KeyError ''health_score''), tr)
                          | Some _ \<Rightarrow> (Inr r, tr))))))"

text \<open>The connection test of the start-up code: \<open>conn = get_db_connection()\<close>, then
  \<open>conn.close()\<close>; a failure ends the process with status 1.\<close>

definition connection_test :: "driver \<Rightarrow> unit outcome" where
  "connection_test drv =
     (case get_db_connection drv of
        (Inl e, tr) \<Rightarrow> (Inl e, tr)
      | (Inr _, tr) \<Rightarrow> (Inr (), tr @ [EvConnClose]))"

section \<open>The relational store\<close>

text \<open>
  Modelled from the spec: the declarations of the tables \<open>customers\<close> and
  \<open>support_tickets\<close> are not part of the source.  The records below carry the
  columns that the queries of the source name, with the types their use implies;
  \<open>name\<close> and \<open>email\<close> are texts that are not \<open>NULL\<close>, \<open>customers.id\<close> is the primary
  key (the query of \<open>get_customer_info\<close> selects \<open>c.*\<close> under \<open>GROUP BY c.id\<close>, which
  PostgreSQL accepts for a primary key only), \<open>resolved_at\<close> may be \<open>NULL\<close>, and a
  timestamp is a number of seconds.  \<open>now\<close> is the value of \<open>NOW()\<close>.
\<close>

record customer =
  c_id :: int
  c_name :: string
  c_email :: string
  c_country :: string
  c_subscription_tier :: string
  c_mrr :: rat
  c_created_at :: int

record ticket =
  t_id :: int
  t_customer_id :: int
  t_subject :: string
  t_status :: string
  t_priority :: string
  t_created_at :: int
  t_resolved_at :: "int option"

record database =
  customers :: "customer list"
  support_tickets :: "ticket list"
  now :: int

text \<open>\<open>EXTRACT(DAY FROM a - b)\<close> on timestamps: the whole days of the interval,
  rounded towards zero.\<close>

definition extract_day :: "int \<Rightarrow> int \<Rightarrow> int" where
  "extract_day a b =
     (let d = a - b in if 0 \<le> d then d div 86400 else - ((- d) div 86400))"

text \<open>The case folding of \<open>ILIKE\<close>, on texts of 8-bit characters: the letters A-Z
  go to a-z, every other character stays.\<close>

definition char_lower :: "char \<Rightarrow> char" where
  "char_lower c =
     (let n = (of_char c :: nat) in if 65 \<le> n \<and> n \<le> 90 then char_of (n + 32) else c)"

definition str_lower :: "string \<Rightarrow> string" where
  "str_lower s = map char_lower s"

text \<open>
  \<open>like_match pattern s\<close> is PostgreSQL's \<open>s LIKE pattern\<close>: \<open>%\<close> stands for any
  sequence of characters, \<open>_\<close> for any one character, a backslash makes the next
  pattern character literal.  (PostgreSQL raises an error on a pattern that ends with
  a single backslash; here such a pattern matches nothing.  The patterns of the tools
  end with \<open>%\<close>.)  \<open>ILIKE\<close> compares without regard to case.
\<close>

fun like_match :: "string \<Rightarrow> string \<Rightarrow> bool" where
  "like_match [] s = (s = [])"
| "like_match (p # ps) [] =
     (if p = CHR ''%'' then like_match ps [] else False)"
| "like_match (p # ps) (c # s) =
     (if p = CHR ''%'' then like_match ps (c # s) \<or> like_match (p # ps) s
      else if p = CHR ''_'' then like_match ps s
      else if p = CHR 0x5C
        then (case ps of [] \<Rightarrow> False | q # qs \<Rightarrow> c = q \<and> like_match qs s)
      else c = p \<and> like_match ps s)"

definition ilike :: "string \<Rightarrow> string \<Rightarrow> bool" where
  "ilike s pattern = like_match (str_lower pattern) (str_lower s)"

text \<open>\<open>ORDER BY key ASC\<close> and \<open>ORDER BY key DESC\<close> as stable sorts; texts compare
  character by character.\<close>

definition order_by_asc :: "('a \<Rightarrow> 'k::linorder) \<Rightarrow> 'a list \<Rightarrow> 'a list" where
  "order_by_asc key xs = sort_key key xs"

definition order_by_desc :: "('a \<Rightarrow> 'k::linorder) \<Rightarrow> 'a list \<Rightarrow> 'a list" where
  "order_by_desc key xs = rev (sort_key key (rev xs))"

definition tickets_of :: "database \<Rightarrow> customer \<Rightarrow> ticket list" where
  "tickets_of db c = filter (\<lambda>t. t_customer_id t = c_id c) (support_tickets db)"

definition count_where :: "('a \<Rightarrow> bool) \<Rightarrow> 'a list \<Rightarrow> int" where
  "count_where P xs = int (length (filter P xs))"

definition is_open :: "ticket \<Rightarrow> bool" where
  "is_open t = (t_status t = ''Open'' \<or> t_status t = ''In Progress'')"

subsection \<open>The query of \<open>get_customer_info\<close>\<close>

definition customer_columns :: "customer \<Rightarrow> row" where
  "customer_columns c =
     [(''id'', IntV (c_id c)),
      (''name'', TextV (c_name c)),
      (''email'', TextV (c_email c)),
      (''country'', TextV (c_country c)),
      (''subscription_tier'', TextV (c_subscription_tier c)),
      (''mrr'', NumV (c_mrr c)),
      (''created_at'', TimeV (c_created_at c))]"

definition customer_info_row :: "database \<Rightarrow> customer \<Rightarrow> row" where
  "customer_info_row db c =
     (let ts = tickets_of db c in
      customer_columns c @
      [(''total_tickets'', IntV (int (length ts))),
       (''open_tickets'', IntV (count_where (\<lambda>t. t_status t = ''Open'') ts)),
       (''in_progress_tickets'', IntV (count_where (\<lambda>t. t_status t = ''In Progress'') ts)),
       (''high_priority_tickets'', IntV (count_where (\<lambda>t. t_priority t = ''High'') ts)),
       (''last_ticket_date'',
          (case map t_created_at ts of [] \<Rightarrow> Null | x # xs \<Rightarrow> TimeV (fold max xs x)))])"

definition customer_info_rows :: "database \<Rightarrow> string \<Rightarrow> string \<Rightarrow> row list" where
  "customer_info_rows db pattern1 pattern2 =
     map (customer_info_row db)
       (order_by_desc c_mrr
          (filter (\<lambda>c. ilike (c_name c) pattern1 \<or> ilike (c_email c) pattern2)
             (customers db)))"

subsection \<open>The query of \<open>get_open_tickets\<close>\<close>

definition open_ticket_row :: "database \<Rightarrow> ticket \<times> customer \<Rightarrow> row" where
  "open_ticket_row db tc =
     (case tc of (t, c) \<Rightarrow>
        [(''id'', IntV (t_id t)),
         (''subject'', TextV (t_subject t)),
         (''status'', TextV (t_status t)),
         (''priority'', TextV (t_priority t)),
         (''created_at'', TimeV (t_created_at t)),
         (''customer_name'', TextV (c_name c)),
         (''subscription_tier'', TextV (c_subscription_tier c)),
         (''mrr'', NumV (c_mrr c)),
         (''country'', TextV (c_country c)),
         (''days_open'', NumV (of_int (extract_day (now db) (t_created_at t))))])"

text \<open>\<open>support_tickets t JOIN customers c ON t.customer_id = c.id\<close> under the
  \<open>WHERE\<close> clause; \<open>priority\<close> is the bound parameter of the clause
  \<open>AND t.priority = %s\<close> when the text has it.\<close>

definition open_tickets_join :: "database \<Rightarrow> string option \<Rightarrow> (ticket \<times> customer) list" where
  "open_tickets_join db priority =
     concat (map (\<lambda>t. map (\<lambda>c. (t, c)) (filter (\<lambda>c. t_customer_id t = c_id c) (customers db)))
       (filter (\<lambda>t. is_open t \<and> (case priority of None \<Rightarrow> True | Some p \<Rightarrow> t_priority t = p))
          (support_tickets db)))"

definition open_tickets_rows :: "database \<Rightarrow> string option \<Rightarrow> row list" where
  "open_tickets_rows db priority =
     map (open_ticket_row db)
       (order_by_desc (\<lambda>tc. t_priority (fst tc))
          (order_by_asc (\<lambda>tc. t_created_at (fst tc)) (open_tickets_join db priority)))"

subsection \<open>The query of \<open>get_customer_health_score\<close>\<close>

definition avg_resolution_days :: "ticket list \<Rightarrow> sqlval" where
  "avg_resolution_days ts =
     (let ds = concat (map (\<lambda>t. case t_resolved_at t of
                                   None \<Rightarrow> []
                                 | Some r \<Rightarrow> [extract_day r (t_created_at t)]) ts)
      in if ds = [] then Null
         else NumV (of_int (sum_list ds) / of_int (int (length ds))))"

definition health_row :: "database \<Rightarrow> customer \<Rightarrow> row" where
  "health_row db c =
     (let ts = tickets_of db c;
          open_tickets = count_where is_open ts;
          high_priority_tickets = count_where (\<lambda>t. t_priority t = ''High'') ts
      in [(''id'', IntV (c_id c)),
          (''name'', TextV (c_name c)),
          (''subscription_tier'', TextV (c_subscription_tier c)),
          (''mrr'', NumV (c_mrr c)),
          (''account_age_days'', NumV (of_int (extract_day (now db) (c_created_at c)))),
          (''total_tickets'', IntV (int (length ts))),
          (''open_tickets'', IntV open_tickets),
          (''high_priority_tickets'', IntV high_priority_tickets),
          (''avg_resolution_days'', avg_resolution_days ts),
          (''health_score'', IntV (health_score open_tickets high_priority_tickets))])"

definition health_rows :: "database \<Rightarrow> string \<Rightarrow> row list" where
  "health_rows db pattern =
     map (health_row db) (filter (\<lambda>c. ilike (c_name c) pattern) (customers db))"

subsection \<open>The driver over a database\<close>

text \<open>
  A driver whose connection, transaction end and fetch succeed and which answers the
  query texts above by the queries they denote; every other text is passed to
  \<open>other\<close>.
\<close>

definition pg_execute ::
  "database \<Rightarrow> (string \<Rightarrow> sqlparam list \<Rightarrow> error + (error + row list)) \<Rightarrow>
   string \<Rightarrow> sqlparam list \<Rightarrow> error + (error + row list)" where
  "pg_execute db other query params =
     (if query = get_open_tickets_sql @ '' ORDER BY t.priority DESC, t.created_at ASC''
      then (case params of
              [] \<Rightarrow> Inr (Inr (open_tickets_rows db None))
            | _ \<Rightarrow> other query params)
      else if query = get_open_tickets_sql @ '' AND t.priority = %s''
                        @ '' ORDER BY t.priority DESC, t.created_at ASC''
      then (case params of
              [PText p] \<Rightarrow> Inr (Inr (open_tickets_rows db (Some p)))
            | _ \<Rightarrow> other query params)
      else if query = get_customer_info_sql
      then (case params of
              [PText p1, PText p2] \<Rightarrow> Inr (Inr (customer_info_rows db p1 p2))
            | _ \<Rightarrow> other query params)
      else if query = get_customer_health_score_sql
      then (case params of
              [PText p] \<Rightarrow> Inr (Inr (health_rows db p))
            | _ \<Rightarrow> other query params)
      else other query params)"

definition pg_driver ::
  "database \<Rightarrow> (string \<Rightarrow> sqlparam list \<Rightarrow> error + (error + row list)) \<Rightarrow> driver" where
  "pg_driver db other =
     \<lparr>connect_result = None, execute_result = pg_execute db other, exit_result = (\<lambda>_. None)\<rparr>"

section \<open>Observations on the events of a call\<close>

text \<open>The query texts and parameter lists handed to \<open>cur.execute\<close>, in order.\<close>

fun sent :: "event list \<Rightarrow> (string \<times> sqlparam list) list" where
  "sent [] = []"
| "sent (EvExecute q ps # tr) = (q, ps) # sent tr"
| "sent (_ # tr) = sent tr"

text \<open>How often a connection was made, how often the exit hook of the connection's
  \<open>with\<close> block ran, and how often \<open>conn.close()\<close> was called.\<close>

definition connects :: "event list \<Rightarrow> nat" where
  "connects tr = length (filter (\<lambda>e. e = EvConnect) tr)"

definition conn_exits :: "event list \<Rightarrow> nat" where
  "conn_exits tr = length (filter (\<lambda>e. e = EvConnExit True \<or> e = EvConnExit False) tr)"

definition conn_closes :: "event list \<Rightarrow> nat" where
  "conn_closes tr = length (filter (\<lambda>e. e = EvConnClose) tr)"

section \<open>A sample database\<close>

text \<open>Two customers and three tickets, used to run the tools on concrete input; a
  query text outside the catalogue is answered with an error.\<close>

definition reject_other :: "string \<Rightarrow> sqlparam list \<Rightarrow> error + (error + row list)" where
  "reject_other query params = Inl (DatabaseError ''syntax error'')"

definition sample_db :: database where
  "sample_db =
     \<lparr>customers =
        [\<lparr>c_id = 1, c_name = ''ASML'', c_email = ''it@asml.com'', c_country = ''NL'',
          c_subscription_tier = ''Enterprise'', c_mrr = 50000, c_created_at = 0\<rparr>,
         \<lparr>c_id = 2, c_name = ''Accenture'', c_email = ''ops@accenture.com'', c_country = ''IE'',
          c_subscription_tier = ''Pro'', c_mrr = 30000, c_created_at = 86400\<rparr>],
      support_tickets =
        [\<lparr>t_id = 1, t_customer_id = 1, t_subject = ''Login fails'', t_status = ''Open'',
          t_priority = ''High'', t_created_at = 172800, t_resolved_at = None\<rparr>,
         \<lparr>t_id = 2, t_customer_id = 1, t_subject = ''Export is slow'',
          t_status = ''In Progress'', t_priority = ''Low'', t_created_at = 259200,
          t_resolved_at = None\<rparr>,
         \<lparr>t_id = 3, t_customer_id = 2, t_subject = ''Invoice'', t_status = ''Resolved'',
          t_priority = ''High'', t_created_at = 172800, t_resolved_at = Some 432000\<rparr>],
      now = 864000\<rparr>"

section \<open>Substrings and trimming\<close>

lemma startswith_iff: "startswith s p \<longleftrightarrow> (\<exists>b. s = p @ b)"
  unfolding startswith_def
  by (metis append_eq_conv_conj append_take_drop_id)

lemma str_in_iff: "str_in k s \<longleftrightarrow> (\<exists>a b. s = a @ k @ b)"
proof (induction s)
  case Nil
  then show ?case by auto
next
  case (Cons c s)
  show ?case
  proof
    assume "str_in k (c # s)"
    then consider "startswith (c # s) k" | "str_in k s" by auto
    then show "\<exists>a b. c # s = a @ k @ b"
    proof cases
      case 1
      then obtain b where "c # s = k @ b" by (auto simp: startswith_iff)
      then have "c # s = [] @ k @ b" by simp
      then show ?thesis by blast
    next
      case 2
      then obtain a b where "s = a @ k @ b" using Cons.IH by blast
      then have "c # s = (c # a) @ k @ b" by simp
      then show ?thesis by blast
    qed
  next
    assume "\<exists>a b. c # s = a @ k @ b"
    then obtain a b where ab: "c # s = a @ k @ b" by blast
    show "str_in k (c # s)"
    proof (cases a)
      case Nil
      with ab have "startswith (c # s) k" by (auto simp: startswith_iff)
      then show ?thesis by simp
    next
      case (Cons x a')
      with ab have "s = a' @ k @ b" by simp
      then have "str_in k s" using Cons.IH by blast
      then show ?thesis by simp
    qed
  qed
qed

lemma check_keywords_ok:
  "check_keywords ks s = Inr b \<longleftrightarrow> (b \<and> (\<forall>k \<in> set ks. \<not> str_in (lit k) s))"
  by (induction ks) auto

lemma check_keywords_err:
  "(\<exists>e. check_keywords ks s = Inl e) \<longleftrightarrow> (\<exists>k \<in> set ks. str_in (lit k) s)"
  by (induction ks) auto

lemma check_keywords_first:
  "check_keywords ks s = Inl e \<Longrightarrow>
   \<exists>k \<in> set ks. str_in (lit k) s \<and> e = ValueError (''Forbidden operation detected: '' @ k)"
  by (induction ks) (auto split: if_splits)

lemma sub_dropWhile:
  assumes "k \<noteq> []" "P (hd k) = False"
  shows "(\<exists>a b. dropWhile P s = a @ k @ b) \<longleftrightarrow> (\<exists>a b. s = a @ k @ b)"
proof (induction s)
  case Nil
  then show ?case by simp
next
  case (Cons c s)
  show ?case
  proof (cases "P c")
    case False
    then show ?thesis by simp
  next
    case True
    have "(\<exists>a b. c # s = a @ k @ b) \<longleftrightarrow> (\<exists>a b. s = a @ k @ b)"
    proof
      assume "\<exists>a b. c # s = a @ k @ b"
      then obtain a b where ab: "c # s = a @ k @ b" by blast
      show "\<exists>a b. s = a @ k @ b"
      proof (cases a)
        case Nil
        with ab assms(1) have "c = hd k" by (cases k) auto
        with True assms(2) show ?thesis by simp
      next
        case (Cons x a')
        with ab have "s = a' @ k @ b" by simp
        then show ?thesis by blast
      qed
    next
      assume "\<exists>a b. s = a @ k @ b"
      then obtain a b where "s = a @ k @ b" by blast
      then have "c # s = (c # a) @ k @ b" by simp
      then show "\<exists>a b. c # s = a @ k @ b" by blast
    qed
    with True Cons.IH show ?thesis by simp
  qed
qed

lemma sub_rev: "(\<exists>a b. rev s = a @ k @ b) \<longleftrightarrow> (\<exists>a b. s = a @ rev k @ b)"
proof
  assume "\<exists>a b. rev s = a @ k @ b"
  then obtain a b where "rev s = a @ k @ b" by blast
  then have "rev (rev s) = rev (a @ k @ b)" by simp
  then have "s = rev b @ rev k @ rev a" by simp
  then show "\<exists>a b. s = a @ rev k @ b" by blast
next
  assume "\<exists>a b. s = a @ rev k @ b"
  then obtain a b where "s = a @ rev k @ b" by blast
  then have "rev s = rev b @ k @ rev a" by simp
  then show "\<exists>a b. rev s = a @ k @ b" by blast
qed

lemma sub_strip:
  assumes "k \<noteq> []" "\<not> is_space (hd k)" "\<not> is_space (last k)"
  shows "(\<exists>a b. str_strip s = a @ k @ b) \<longleftrightarrow> (\<exists>a b. s = a @ k @ b)"
proof -
  have rk: "rev k \<noteq> []" "is_space (hd (rev k)) = False"
    using assms by (simp_all add: hd_rev)
  have "(\<exists>a b. str_strip s = a @ k @ b)
        \<longleftrightarrow> (\<exists>a b. rev (dropWhile is_space (rev (str_lstrip s))) = a @ k @ b)"
    by (simp add: str_strip_def str_rstrip_def)
  also have "\<dots> \<longleftrightarrow> (\<exists>a b. dropWhile is_space (rev (str_lstrip s)) = a @ rev k @ b)"
    using sub_rev [of "dropWhile is_space (rev (str_lstrip s))" k] by simp
  also have "\<dots> \<longleftrightarrow> (\<exists>a b. rev (str_lstrip s) = a @ rev k @ b)"
    using sub_dropWhile [of "rev k" is_space "rev (str_lstrip s)"] rk by simp
  also have "\<dots> \<longleftrightarrow> (\<exists>a b. str_lstrip s = a @ k @ b)"
    using sub_rev [of "str_lstrip s" "rev k"] by simp
  also have "\<dots> \<longleftrightarrow> (\<exists>a b. s = a @ k @ b)"
    unfolding str_lstrip_def using sub_dropWhile [of k is_space s] assms by simp
  finally show ?thesis .
qed

lemmas validator_eval =
  validate_query_def spec_begins_with_token_SELECT_def is_word_char_def FORBIDDEN_KEYWORDS_def
  lit_def str_upper_def char_upper_def ascii_upper_def upper_entries_def
  str_strip_def str_lstrip_def str_rstrip_def is_space_def startswith_def

lemma keywords_solid:
  "\<forall>k \<in> set FORBIDDEN_KEYWORDS.
     lit k \<noteq> [] \<and> \<not> is_space (hd (lit k)) \<and> \<not> is_space (last (lit k))"
  by (simp add: FORBIDDEN_KEYWORDS_def lit_def is_space_def)

lemma keywords_nine:
  "set FORBIDDEN_KEYWORDS =
     {''DROP'', ''DELETE'', ''UPDATE'', ''INSERT'', ''TRUNCATE'',
      ''ALTER'', ''CREATE'', ''GRANT'', ''REVOKE''}"
  by (simp add: FORBIDDEN_KEYWORDS_def)

lemma validate_query_keywords:
  assumes "startswith (str_strip (str_upper uc query)) (lit ''SELECT'')"
  shows "((\<exists>msg. validate_query uc query = Inl (ValueError msg)) \<longleftrightarrow>
            (\<exists>k \<in> set FORBIDDEN_KEYWORDS. \<exists>a b. str_upper uc query = a @ lit k @ b)) \<and>
         ((\<forall>k \<in> set FORBIDDEN_KEYWORDS. \<not> (\<exists>a b. str_upper uc query = a @ lit k @ b)) \<longrightarrow>
            validate_query uc query = Inr True)"
proof -
  let ?qu = "str_strip (str_upper uc query)"
  have v: "validate_query uc query = check_keywords FORBIDDEN_KEYWORDS ?qu"
    using assms by (simp add: validate_query_def)
  have occ: "str_in (lit k) ?qu \<longleftrightarrow> (\<exists>a b. str_upper uc query = a @ lit k @ b)"
    if "k \<in> set FORBIDDEN_KEYWORDS" for k
    using that keywords_solid sub_strip [of "lit k" "str_upper uc query"] by (simp add: str_in_iff)
  have "(\<exists>msg. validate_query uc query = Inl (ValueError msg)) \<longleftrightarrow>
        (\<exists>e. check_keywords FORBIDDEN_KEYWORDS ?qu = Inl e)"
    using check_keywords_first [of FORBIDDEN_KEYWORDS ?qu] v by auto
  also have "\<dots> \<longleftrightarrow> (\<exists>k \<in> set FORBIDDEN_KEYWORDS. str_in (lit k) ?qu)"
    by (rule check_keywords_err)
  also have "\<dots> \<longleftrightarrow> (\<exists>k \<in> set FORBIDDEN_KEYWORDS. \<exists>a b. str_upper uc query = a @ lit k @ b)"
    using occ by blast
  finally have first: "(\<exists>msg. validate_query uc query = Inl (ValueError msg)) \<longleftrightarrow>
        (\<exists>k \<in> set FORBIDDEN_KEYWORDS. \<exists>a b. str_upper uc query = a @ lit k @ b)" .
  have second: "validate_query uc query = Inr True"
    if "\<forall>k \<in> set FORBIDDEN_KEYWORDS. \<not> (\<exists>a b. str_upper uc query = a @ lit k @ b)"
  proof -
    from that occ have "\<forall>k \<in> set FORBIDDEN_KEYWORDS. \<not> str_in (lit k) ?qu" by blast
    then show ?thesis using v check_keywords_ok [of FORBIDDEN_KEYWORDS ?qu True] by simp
  qed
  from first second show ?thesis by blast
qed

section \<open>The validator\<close>

text \<open>
  C1.  For every query text (any sequence of code points, under any upper-case mapping
  of the code points from 128 on) whose upper-cased, trimmed form begins with
  \<open>SELECT\<close>: \<open>validate_query\<close> raises its error (\<open>ValueError\<close>, the specification's
  \<open>InvalidQuery\<close>) if and only if one of the nine keywords \<open>DROP\<close>, \<open>DELETE\<close>,
  \<open>UPDATE\<close>, \<open>INSERT\<close>, \<open>TRUNCATE\<close>, \<open>ALTER\<close>, \<open>CREATE\<close>, \<open>GRANT\<close>, \<open>REVOKE\<close> occurs
  as a substring of the upper-cased text, and it returns \<open>True\<close> when none occurs.
\<close>

theorem validate_query_forbidden_iff:
  assumes "startswith (str_strip (str_upper uc query)) (lit ''SELECT'')"
  shows "((\<exists>msg. validate_query uc query = Inl (ValueError msg)) \<longleftrightarrow>
            (\<exists>k \<in> {''DROP'', ''DELETE'', ''UPDATE'', ''INSERT'', ''TRUNCATE'',
                       ''ALTER'', ''CREATE'', ''GRANT'', ''REVOKE''}.
               \<exists>a b. str_upper uc query = a @ lit k @ b)) \<and>
         ((\<forall>k \<in> {''DROP'', ''DELETE'', ''UPDATE'', ''INSERT'', ''TRUNCATE'',
                     ''ALTER'', ''CREATE'', ''GRANT'', ''REVOKE''}.
             \<not> (\<exists>a b. str_upper uc query = a @ lit k @ b)) \<longrightarrow>
            validate_query uc query = Inr True)"
  using validate_query_keywords [OF assms] unfolding keywords_nine .

text \<open>The theorem at the text \<open>select\<close>, blank, U+0131, \<open>nsert into t\<close>: its
  upper-cased form begins with \<open>SELECT\<close> and holds \<open>INSERT\<close>, and the validator raises
  for \<open>INSERT\<close>.\<close>

theorem validate_query_forbidden_iff_witness:
  "startswith
     (str_strip (str_upper upper_entries (lit ''select '' @ [305] @ lit ''nsert into t'')))
     (lit ''SELECT'') \<and>
   validate_query upper_entries (lit ''select '' @ [305] @ lit ''nsert into t'') =
     Inl (ValueError ''Forbidden operation detected: INSERT'') \<and>
   (\<exists>k \<in> {''DROP'', ''DELETE'', ''UPDATE'', ''INSERT'', ''TRUNCATE'',
              ''ALTER'', ''CREATE'', ''GRANT'', ''REVOKE''}.
      \<exists>a b. str_upper upper_entries (lit ''select '' @ [305] @ lit ''nsert into t'') =
              a @ lit k @ b)"
proof -
  have h: "startswith
     (str_strip (str_upper upper_entries (lit ''select '' @ [305] @ lit ''nsert into t'')))
     (lit ''SELECT'')"
    by (simp add: validator_eval)
  have v: "validate_query upper_entries (lit ''select '' @ [305] @ lit ''nsert into t'') =
     Inl (ValueError ''Forbidden operation detected: INSERT'')"
    by (simp add: validator_eval)
  from validate_query_forbidden_iff [OF h] v h show ?thesis by blast
qed

text \<open>
  C2, as the specification words it: a text is accepted only if its normalized form
  begins with the token \<open>SELECT\<close>.  The text \<open>"selectx 1"\<close> is accepted, and its
  normalized form \<open>SELECTX 1\<close> begins with the word \<open>SELECTX\<close>, not with the token
  \<open>SELECT\<close>.
\<close>

theorem validate_query_token_counterexample:
  "validate_query upper_entries (lit ''selectx 1'') = Inr True \<and>
   \<not> spec_begins_with_token_SELECT (str_strip (str_upper upper_entries (lit ''selectx 1'')))"
  by (simp add: validator_eval)

text \<open>
  C2, amended.  For every query text (any sequence of code points, under any upper-case
  mapping of the code points from 128 on): \<open>validate_query\<close> accepts the text only
  if its normalized form (upper-cased, trimmed) has the six characters \<open>SELECT\<close> as a
  prefix, and every text whose normalized form lacks that prefix is rejected with the
  error \<open>Only SELECT queries are permitted\<close>.
\<close>

theorem validate_query_prefix:
  "(validate_query uc query = Inr b \<longrightarrow>
      startswith (str_strip (str_upper uc query)) (lit ''SELECT'')) \<and>
   (\<not> startswith (str_strip (str_upper uc query)) (lit ''SELECT'') \<longrightarrow>
      validate_query uc query = Inl (ValueError ''Only SELECT queries are permitted''))"
  by (auto simp add: validate_query_def Let_def)

text \<open>The theorem at an accepted text, U+00A0 followed by \<open>select 1\<close>, which
  \<open>str.strip()\<close> trims to \<open>SELECT 1\<close>, and at a rejected one.\<close>

theorem validate_query_prefix_witness:
  "validate_query upper_entries ([160] @ lit ''select 1'') = Inr True \<and>
   startswith (str_strip (str_upper upper_entries ([160] @ lit ''select 1''))) (lit ''SELECT'') \<and>
   \<not> startswith (str_strip (str_upper upper_entries (lit ''  show tables''))) (lit ''SELECT'') \<and>
   validate_query upper_entries (lit ''  show tables'') =
     Inl (ValueError ''Only SELECT queries are permitted'')"
proof -
  have a: "validate_query upper_entries ([160] @ lit ''select 1'') = Inr True"
    by (simp add: validator_eval)
  have b: "\<not> startswith (str_strip (str_upper upper_entries (lit ''  show tables'')))
             (lit ''SELECT'')"
    by (simp add: validator_eval)
  from validate_query_prefix [of upper_entries "[160] @ lit ''select 1''" True]
       validate_query_prefix [of upper_entries "lit ''  show tables''"] a b
  show ?thesis by blast
qed

section \<open>The health-score table\<close>

lemma rule_taken_0: "rule_taken 0 ot hp \<longleftrightarrow> ot = 0"
  by (simp add: rule_taken_def health_rules_def)
lemma rule_taken_1: "rule_taken (Suc 0) ot hp \<longleftrightarrow> ot \<noteq> 0 \<and> ot \<le> 2 \<and> hp = 0"
  by (auto simp add: rule_taken_def health_rules_def)
lemma rule_taken_2: "rule_taken 2 ot hp \<longleftrightarrow> ot \<noteq> 0 \<and> \<not> (ot \<le> 2 \<and> hp = 0) \<and> ot \<le> 5 \<and> hp \<le> 1"
  by (auto simp add: rule_taken_def health_rules_def eval_nat_numeral less_Suc_eq)
lemma rule_taken_3: "rule_taken 3 ot hp \<longleftrightarrow> ot \<noteq> 0 \<and> \<not> (ot \<le> 2 \<and> hp = 0) \<and> \<not> (ot \<le> 5 \<and> hp \<le> 1) \<and> hp \<ge> 2"
  by (auto simp add: rule_taken_def health_rules_def eval_nat_numeral less_Suc_eq)
lemma rule_taken_4: "rule_taken 4 ot hp \<longleftrightarrow> ot \<noteq> 0 \<and> \<not> (ot \<le> 2 \<and> hp = 0) \<and> \<not> (ot \<le> 5 \<and> hp \<le> 1) \<and> \<not> hp \<ge> 2"
  by (auto simp add: rule_taken_def health_rules_def eval_nat_numeral less_Suc_eq)
lemma rule_taken_range: "rule_taken i ot hp \<Longrightarrow> i \<in> {0, 1, 2, 3, 4}"
  by (auto simp add: rule_taken_def health_rules_def)

text \<open>
  C3.  The health score is a total function of the two counts, evaluated first match
  first: \<open>(0, h)\<close> gives 100 for every \<open>h\<close>, \<open>(1, 0)\<close> gives 85, \<open>(4, 1)\<close> gives 70,
  \<open>(3, 2)\<close> gives 40 and \<open>(6, 1)\<close> gives 60; for every pair exactly one branch is
  taken, the score is the score of that branch, and it is one of 100, 85, 70, 60, 40.
\<close>

theorem health_score_table:
  "health_score 0 h = 100 \<and>
   health_score 1 0 = 85 \<and>
   health_score 4 1 = 70 \<and>
   health_score 3 2 = 40 \<and>
   health_score 6 1 = 60 \<and>
   health_score ot hp \<in> {100, 85, 70, 60, 40} \<and>
   (\<exists>!i. rule_taken i ot hp) \<and>
   (\<forall>i. rule_taken i ot hp \<longrightarrow> health_score ot hp = snd (health_rules ! i))"
proof -
  have table: "health_score 0 h = 100" "health_score 1 0 = 85" "health_score 4 1 = 70"
    "health_score 3 2 = 40" "health_score 6 1 = 60"
    by (simp_all add: health_score_def)
  have range: "health_score ot hp \<in> {100, 85, 70, 60, 40}"
    by (simp add: health_score_def)
  have some: "rule_taken 0 ot hp \<or> rule_taken (Suc 0) ot hp \<or> rule_taken 2 ot hp \<or>
      rule_taken 3 ot hp \<or> rule_taken 4 ot hp"
    unfolding rule_taken_0 rule_taken_1 rule_taken_2 rule_taken_3 rule_taken_4 by arith
  have same: "i = j" if "rule_taken i ot hp" "rule_taken j ot hp" for i j
  proof -
    from that have "i \<in> {0, 1, 2, 3, 4}" "j \<in> {0, 1, 2, 3, 4}"
      by (auto dest: rule_taken_range)
    with that show ?thesis
      by (auto simp add: rule_taken_0 rule_taken_1 rule_taken_2 rule_taken_3 rule_taken_4)
  qed
  have unique: "\<exists>!i. rule_taken i ot hp"
    using some same by blast
  have score: "health_score ot hp = snd (health_rules ! i)" if "rule_taken i ot hp" for i
  proof -
    from that have "i \<in> {0, 1, 2, 3, 4}" by (rule rule_taken_range)
    with that show ?thesis
      by (auto simp add: rule_taken_0 rule_taken_1 rule_taken_2 rule_taken_3 rule_taken_4
          health_score_def health_rules_def)
  qed
  from table range unique score show ?thesis by blast
qed

text \<open>The theorem at \<open>(6, 1)\<close>: the branch taken is the last one, with score 60.\<close>

theorem health_score_table_witness:
  "rule_taken 4 6 1 \<and> health_score 6 1 = snd (health_rules ! 4) \<and> snd (health_rules ! 4) = 60"
proof -
  have t: "rule_taken 4 6 1"
    by (simp add: rule_taken_4)
  have s: "snd (health_rules ! 4) = 60"
    by (simp add: health_rules_def)
  from health_score_table [of 0 6 1] t s show ?thesis by blast
qed

section \<open>Effects of the tools\<close>

lemma sent_append: "sent (xs @ ys) = sent xs @ sent ys"
  by (induction xs rule: sent.induct) auto

lemma conn_exits_append: "conn_exits (xs @ ys) = conn_exits xs + conn_exits ys"
  by (simp add: conn_exits_def)

lemma conn_closes_append: "conn_closes (xs @ ys) = conn_closes xs + conn_closes ys"
  by (simp add: conn_closes_def)

lemma snd_with_connection:
  "snd (with_connection drv body) =
     (case connect_result drv of
        Some e \<Rightarrow> [EvConnectFailed]
      | None \<Rightarrow> [EvConnect, EvConnEnter] @ snd body @ [EvConnExit (isl (fst body))])"
  by (simp add: with_connection_def get_db_connection_def split: option.splits prod.splits)

lemma fst_with_connection:
  "fst (with_connection drv body) =
     (case connect_result drv of
        Some e \<Rightarrow> Inl e
      | None \<Rightarrow> (case exit_result drv (isl (fst body)) of Some e \<Rightarrow> Inl e | None \<Rightarrow> fst body))"
  by (simp add: with_connection_def get_db_connection_def split: option.splits prod.splits)

lemma snd_with_cursor:
  "snd (with_cursor body) = [EvCursor] @ snd body @ [EvCursorExit (isl (fst body))]"
  by (simp add: with_cursor_def split: prod.splits)

lemma fst_with_cursor: "fst (with_cursor body) = fst body"
  by (simp add: with_cursor_def split: prod.splits)

lemma snd_execute_fetchall:
  "snd (execute_fetchall drv q ps) =
     (case execute_result drv q ps of Inl e \<Rightarrow> [EvExecute q ps] | Inr _ \<Rightarrow> [EvExecute q ps, EvFetch])"
  by (simp add: execute_fetchall_def split: sum.splits)

lemma fst_execute_fetchall:
  "fst (execute_fetchall drv q ps) =
     (case execute_result drv q ps of Inl e \<Rightarrow> Inl e | Inr pending \<Rightarrow> pending)"
  by (simp add: execute_fetchall_def split: sum.splits)

lemma snd_execute_fetchone:
  "snd (execute_fetchone drv q ps) =
     (case execute_result drv q ps of Inl e \<Rightarrow> [EvExecute q ps] | Inr _ \<Rightarrow> [EvExecute q ps, EvFetch])"
  by (simp add: execute_fetchone_def split: sum.splits)

lemma fst_execute_fetchone:
  "fst (execute_fetchone drv q ps) =
     (case execute_result drv q ps of
        Inl e \<Rightarrow> Inl e
      | Inr (Inl e) \<Rightarrow> Inl e
      | Inr (Inr rows) \<Rightarrow> Inr (case rows of [] \<Rightarrow> None | r # _ \<Rightarrow> Some r))"
  by (simp add: execute_fetchone_def split: sum.splits)

lemma wc_closes: "conn_closes (snd body) = 0 \<Longrightarrow> conn_closes (snd (with_connection drv body)) = 0"
  by (simp add: snd_with_connection conn_closes_def split: option.splits)

lemma wc_exits:
  "conn_exits (snd body) = 0 \<Longrightarrow> connects (snd body) = 0 \<Longrightarrow>
   conn_exits (snd (with_connection drv body)) = connects (snd (with_connection drv body))"
  by (simp add: snd_with_connection conn_exits_def connects_def split: option.splits)

lemma wcur_closes: "conn_closes (snd body) = 0 \<Longrightarrow> conn_closes (snd (with_cursor body)) = 0"
  by (simp add: snd_with_cursor conn_closes_def)

lemma wcur_exits: "conn_exits (snd body) = 0 \<Longrightarrow> conn_exits (snd (with_cursor body)) = 0"
  by (simp add: snd_with_cursor conn_exits_def)

lemma wcur_connects: "connects (snd body) = 0 \<Longrightarrow> connects (snd (with_cursor body)) = 0"
  by (simp add: snd_with_cursor connects_def)

lemma fetchall_quiet:
  "conn_closes (snd (execute_fetchall drv q ps)) = 0"
  "conn_exits (snd (execute_fetchall drv q ps)) = 0"
  "connects (snd (execute_fetchall drv q ps)) = 0"
  by (simp_all add: snd_execute_fetchall conn_closes_def conn_exits_def connects_def split: sum.splits)

lemma fetchone_quiet:
  "conn_closes (snd (execute_fetchone drv q ps)) = 0"
  "conn_exits (snd (execute_fetchone drv q ps)) = 0"
  "connects (snd (execute_fetchone drv q ps)) = 0"
  by (simp_all add: snd_execute_fetchone conn_closes_def conn_exits_def connects_def split: sum.splits)

lemma info_body_snd:
  "snd (case get_customer_info_request search of (query, params) \<Rightarrow>
          (case execute_fetchall drv query params of
             (Inl e, tr) \<Rightarrow> (Inl e, tr)
           | (Inr results, tr) \<Rightarrow>
               (if results = []
                then (Inr [[(''message'', TextV (no_customer_found search))]], tr)
                else (Inr results, tr))))
   = snd (execute_fetchall drv get_customer_info_sql
            [PText (''%'' @ search @ ''%''), PText (''%'' @ search @ ''%'')])"
  by (auto simp add: get_customer_info_request_def Let_def split: prod.splits sum.splits)

lemma health_body_snd:
  "snd (case get_customer_health_score_request customer_name of (query, params) \<Rightarrow>
          (case execute_fetchone drv query params of
             (Inl e, tr) \<Rightarrow> (Inl e, tr)
           | (Inr result, tr) \<Rightarrow>
               (case result of
                  None \<Rightarrow> (Inr [(''error'', TextV (no_customer_found customer_name))], tr)
                | Some r \<Rightarrow>
                    if r = []
                    then (Inr [(''error'', TextV (no_customer_found customer_name))], tr)
                    else (case map_of r ''health_score'' of
                            None \<Rightarrow> (Inl (KeyError ''health_score''), tr)
                          | Some _ \<Rightarrow> (Inr r, tr)))))
   = snd (execute_fetchone drv get_customer_health_score_sql [PText (''%'' @ customer_name @ ''%'')])"
  by (auto simp add: get_customer_health_score_request_def split: prod.splits sum.splits option.splits)

lemma query_database_events:
  "conn_closes (snd (query_database uc drv q)) = 0 \<and>
   conn_exits (snd (query_database uc drv q)) = connects (snd (query_database uc drv q))"
proof (cases "validate_query uc (lit q)")
  case (Inl e)
  then show ?thesis
    by (simp add: query_database_def conn_closes_def conn_exits_def connects_def)
next
  case (Inr b)
  then show ?thesis
    by (simp add: query_database_def wc_closes wc_exits wcur_closes wcur_exits wcur_connects
        fetchall_quiet)
qed

lemma get_customer_info_events:
  "conn_closes (snd (get_customer_info drv s)) = 0 \<and>
   conn_exits (snd (get_customer_info drv s)) = connects (snd (get_customer_info drv s))"
  unfolding get_customer_info_def
  by (intro conjI wc_closes wc_exits wcur_closes wcur_exits wcur_connects)
     (simp_all only: info_body_snd fetchall_quiet)

lemma get_open_tickets_events:
  "conn_closes (snd (get_open_tickets drv p)) = 0 \<and>
   conn_exits (snd (get_open_tickets drv p)) = connects (snd (get_open_tickets drv p))"
  by (simp add: get_open_tickets_def wc_closes wc_exits wcur_closes wcur_exits wcur_connects
        fetchall_quiet split: prod.splits)

lemma get_at_risk_customers_events:
  "conn_closes (snd (get_at_risk_customers drv m)) = 0 \<and>
   conn_exits (snd (get_at_risk_customers drv m)) = connects (snd (get_at_risk_customers drv m))"
  by (simp add: get_at_risk_customers_def wc_closes wc_exits wcur_closes wcur_exits wcur_connects
        fetchall_quiet split: prod.splits)

lemma get_customer_health_score_events:
  "conn_closes (snd (get_customer_health_score drv n)) = 0 \<and>
   conn_exits (snd (get_customer_health_score drv n)) = connects (snd (get_customer_health_score drv n))"
  unfolding get_customer_health_score_def
  by (intro conjI wc_closes wc_exits wcur_closes wcur_exits wcur_connects)
     (simp_all only: health_body_snd fetchone_quiet)

lemma connection_test_events:
  "connect_result drv = None \<Longrightarrow> snd (connection_test drv) = [EvConnect, EvConnClose]"
  by (simp add: connection_test_def get_db_connection_def)

lemma sent_with_connection:
  "sent (snd (with_connection drv (with_cursor body))) =
     (case connect_result drv of Some e \<Rightarrow> [] | None \<Rightarrow> sent (snd body))"
  by (simp add: snd_with_connection snd_with_cursor sent_append split: option.splits)

lemma sent_execute_fetchall: "sent (snd (execute_fetchall drv q ps)) = [(q, ps)]"
  by (simp add: snd_execute_fetchall split: sum.splits)

lemma sent_execute_fetchone: "sent (snd (execute_fetchone drv q ps)) = [(q, ps)]"
  by (simp add: snd_execute_fetchone split: sum.splits)

lemma sent_get_customer_info:
  "sent (snd (get_customer_info drv search)) =
     (if connect_result drv = None
      then [(get_customer_info_sql, [PText (''%'' @ search @ ''%''), PText (''%'' @ search @ ''%'')])]
      else [])"
  unfolding get_customer_info_def sent_with_connection info_body_snd sent_execute_fetchall
  by (simp split: option.splits)

lemma sent_get_customer_health_score:
  "sent (snd (get_customer_health_score drv n)) =
     (if connect_result drv = None
      then [(get_customer_health_score_sql, [PText (''%'' @ n @ ''%'')])]
      else [])"
  unfolding get_customer_health_score_def sent_with_connection health_body_snd sent_execute_fetchone
  by (simp split: option.splits)

lemma sent_get_at_risk_customers:
  "sent (snd (get_at_risk_customers drv m)) =
     (if connect_result drv = None then [(get_at_risk_customers_sql, [PNum m])] else [])"
  by (simp add: get_at_risk_customers_def get_at_risk_customers_request_def
      sent_with_connection sent_execute_fetchall split: option.splits)

lemma sent_get_open_tickets:
  "sent (snd (get_open_tickets drv p)) =
     (if connect_result drv = None then [get_open_tickets_request p] else [])"
  by (simp add: get_open_tickets_def sent_with_connection sent_execute_fetchall
      split: option.splits prod.splits)

section \<open>The driver over a database answers the catalogue\<close>

lemma texts_distinct:
  "get_open_tickets_sql @ '' AND t.priority = %s'' @ '' ORDER BY t.priority DESC, t.created_at ASC''
     \<noteq> get_open_tickets_sql @ '' ORDER BY t.priority DESC, t.created_at ASC''"
  "get_customer_info_sql \<noteq> get_open_tickets_sql @ '' ORDER BY t.priority DESC, t.created_at ASC''"
  "get_customer_info_sql \<noteq> get_open_tickets_sql @ '' AND t.priority = %s'' @ '' ORDER BY t.priority DESC, t.created_at ASC''"
  "get_customer_health_score_sql \<noteq> get_open_tickets_sql @ '' ORDER BY t.priority DESC, t.created_at ASC''"
  "get_customer_health_score_sql \<noteq> get_open_tickets_sql @ '' AND t.priority = %s'' @ '' ORDER BY t.priority DESC, t.created_at ASC''"
  "get_customer_health_score_sql \<noteq> get_customer_info_sql"
  by (simp_all add: get_open_tickets_sql_def get_customer_info_sql_def
        get_customer_health_score_sql_def sql_text_def)

lemma pg_execute_open_all:
  "pg_execute db other (get_open_tickets_sql @ '' ORDER BY t.priority DESC, t.created_at ASC'') []
     = Inr (Inr (open_tickets_rows db None))"
  by (simp add: pg_execute_def)

lemma pg_execute_open_priority:
  "query = get_open_tickets_sql @ '' AND t.priority = %s''
             @ '' ORDER BY t.priority DESC, t.created_at ASC'' \<Longrightarrow>
   pg_execute db other query [PText p] = Inr (Inr (open_tickets_rows db (Some p)))"
  unfolding pg_execute_def using texts_distinct(1) by simp

lemma pg_execute_info:
  "pg_execute db other get_customer_info_sql [PText p1, PText p2]
     = Inr (Inr (customer_info_rows db p1 p2))"
  unfolding pg_execute_def using texts_distinct(2,3) by simp

lemma pg_execute_health:
  "pg_execute db other get_customer_health_score_sql [PText p]
     = Inr (Inr (health_rows db p))"
  unfolding pg_execute_def using texts_distinct(4,5,6) by simp

lemma set_order_by: "set (order_by_desc f xs) = set xs" "set (order_by_asc f xs) = set xs"
  by (simp_all add: order_by_desc_def order_by_asc_def)

lemma length_order_by: "length (order_by_desc f xs) = length xs"
  by (simp add: order_by_desc_def)

lemma like_percent: "like_match ''%'' s"
  by (induction s) simp_all

lemma like_skip: "like_match ps s \<Longrightarrow> like_match (CHR ''%'' # ps) s"
  by (cases s) simp_all

lemma like_percent3: "like_match ''%%%'' s"
  using like_skip [OF like_skip [OF like_percent]] by simp

lemma lower_percent3: "str_lower ''%%%'' = ''%%%''"
  by code_simp

lemma ilike_percent: "ilike s ''%%%''"
  unfolding ilike_def lower_percent3 by (rule like_percent3)

lemma health_row_has_score: "map_of (health_row db c) ''health_score'' \<noteq> None"
  by (simp add: health_row_def Let_def)

lemma health_rows_have_score:
  "\<forall>r \<in> set (health_rows db pattern). map_of r ''health_score'' \<noteq> None"
proof
  fix r
  assume "r \<in> set (health_rows db pattern)"
  then obtain c where "r = health_row db c" by (auto simp add: health_rows_def)
  then show "map_of r ''health_score'' \<noteq> None" using health_row_has_score [of db c] by simp
qed

lemma pg_driver_fields:
  "connect_result (pg_driver db other) = None"
  "exit_result (pg_driver db other) raised = None"
  "execute_result (pg_driver db other) = pg_execute db other"
  by (simp_all add: pg_driver_def)

section \<open>Release of the connection\<close>

text \<open>
  C4.  What the tools do with the connection they acquire.  For every driver and every
  argument, a tool runs the exit hook of the connection's \<open>with\<close> block once for each
  connection it made, on every path (success, failing \<open>execute\<close>, failing fetch), and
  it never calls \<open>conn.close()\<close>.  On the sample database, \<open>get_open_tickets\<close> without
  a priority makes these calls: connect, enter, cursor, execute, fetch, cursor exit,
  connection exit; no close among them.  The connection test of the start-up code,
  on the same driver, does call \<open>conn.close()\<close>.
\<close>

theorem tools_never_close_connection:
  "(conn_closes (snd (query_database uc drv query)) = 0 \<and>
    conn_exits (snd (query_database uc drv query)) =
      connects (snd (query_database uc drv query))) \<and>
   (conn_closes (snd (get_customer_info drv search)) = 0 \<and>
    conn_exits (snd (get_customer_info drv search)) =
      connects (snd (get_customer_info drv search))) \<and>
   (conn_closes (snd (get_open_tickets drv priority)) = 0 \<and>
    conn_exits (snd (get_open_tickets drv priority)) =
      connects (snd (get_open_tickets drv priority))) \<and>
   (conn_closes (snd (get_at_risk_customers drv min_mrr)) = 0 \<and>
    conn_exits (snd (get_at_risk_customers drv min_mrr)) =
      connects (snd (get_at_risk_customers drv min_mrr))) \<and>
   (conn_closes (snd (get_customer_health_score drv customer_name)) = 0 \<and>
    conn_exits (snd (get_customer_health_score drv customer_name)) =
      connects (snd (get_customer_health_score drv customer_name))) \<and>
   snd (get_open_tickets (pg_driver sample_db reject_other) None) =
     [EvConnect, EvConnEnter, EvCursor,
      EvExecute (get_open_tickets_sql @ '' ORDER BY t.priority DESC, t.created_at ASC'') [],
      EvFetch, EvCursorExit False, EvConnExit False] \<and>
   snd (connection_test (pg_driver sample_db reject_other)) = [EvConnect, EvConnClose]"
proof -
  have run: "snd (get_open_tickets (pg_driver sample_db reject_other) None) =
     [EvConnect, EvConnEnter, EvCursor,
      EvExecute (get_open_tickets_sql @ '' ORDER BY t.priority DESC, t.created_at ASC'') [],
      EvFetch, EvCursorExit False, EvConnExit False]"
    by (simp add: get_open_tickets_def get_open_tickets_request_def truthy_def
        snd_with_connection snd_with_cursor fst_with_cursor snd_execute_fetchall
        fst_execute_fetchall pg_driver_fields pg_execute_open_all)
  have test: "snd (connection_test (pg_driver sample_db reject_other)) = [EvConnect, EvConnClose]"
    by (simp add: connection_test_events pg_driver_fields)
  from query_database_events [of uc drv query] get_customer_info_events [of drv search]
    get_open_tickets_events [of drv priority] get_at_risk_customers_events [of drv min_mrr]
    get_customer_health_score_events [of drv customer_name] run test
  show ?thesis by blast
qed

section \<open>Query texts and bound parameters\<close>

text \<open>
  C5, as stated: the text of \<open>get_open_tickets\<close> depends only on whether the priority
  argument is present.  The empty string and \<open>"High"\<close> are both present, and the texts
  sent for them differ.
\<close>

theorem sql_text_presence_counterexample:
  "map fst (sent (snd (get_open_tickets (pg_driver sample_db reject_other) (Some ''''))))
   \<noteq> map fst (sent (snd (get_open_tickets (pg_driver sample_db reject_other) (Some ''High''))))"
  by (simp add: sent_get_open_tickets pg_driver_fields get_open_tickets_request_def truthy_def)

text \<open>
  C5, amended.  For every fixed tool the query text sent to the store does not depend
  on the argument values: for \<open>get_customer_info\<close>, \<open>get_customer_health_score\<close> and
  \<open>get_at_risk_customers\<close> the text is a constant and the argument reaches the store
  only as a bound parameter (the search value wrapped in \<open>%\<close>); for
  \<open>get_open_tickets\<close> the text depends only on the truthiness of the priority
  argument (given and not empty), and a truthy value is bound as the one parameter.
  Two runs whose priority arguments agree in truthiness send the same text.
\<close>

theorem sql_text_independent_of_values:
  "map fst (sent (snd (get_customer_info drv search))) =
     map fst (sent (snd (get_customer_info drv search'))) \<and>
   map fst (sent (snd (get_customer_health_score drv name))) =
     map fst (sent (snd (get_customer_health_score drv name'))) \<and>
   map fst (sent (snd (get_at_risk_customers drv m))) =
     map fst (sent (snd (get_at_risk_customers drv m'))) \<and>
   (truthy p = truthy p' \<longrightarrow>
      map fst (sent (snd (get_open_tickets drv p))) =
        map fst (sent (snd (get_open_tickets drv p')))) \<and>
   (connect_result drv = None \<longrightarrow>
      sent (snd (get_customer_info drv search)) =
        [(get_customer_info_sql,
          [PText (''%'' @ search @ ''%''), PText (''%'' @ search @ ''%'')])] \<and>
      sent (snd (get_customer_health_score drv name)) =
        [(get_customer_health_score_sql, [PText (''%'' @ name @ ''%'')])] \<and>
      sent (snd (get_at_risk_customers drv m)) = [(get_at_risk_customers_sql, [PNum m])] \<and>
      sent (snd (get_open_tickets drv p)) =
        [if truthy p
         then (get_open_tickets_sql @ '' AND t.priority = %s''
                 @ '' ORDER BY t.priority DESC, t.created_at ASC'', [PText (the p)])
         else (get_open_tickets_sql @ '' ORDER BY t.priority DESC, t.created_at ASC'', [])])"
  by (simp add: sent_get_customer_info sent_get_customer_health_score sent_get_at_risk_customers
      sent_get_open_tickets get_open_tickets_request_def)

text \<open>The theorem on the sample database, for the priorities \<open>"High"\<close> and
  \<open>"Low"\<close> and the search value \<open>"ASML"\<close>.\<close>

theorem sql_text_independent_of_values_witness:
  "truthy (Some ''High'') = truthy (Some ''Low'') \<and>
   connect_result (pg_driver sample_db reject_other) = None \<and>
   map fst (sent (snd (get_open_tickets (pg_driver sample_db reject_other) (Some ''High'')))) =
     map fst (sent (snd (get_open_tickets (pg_driver sample_db reject_other) (Some ''Low'')))) \<and>
   sent (snd (get_customer_info (pg_driver sample_db reject_other) ''ASML'')) =
     [(get_customer_info_sql, [PText (''%'' @ ''ASML'' @ ''%''), PText (''%'' @ ''ASML'' @ ''%'')])]"
proof -
  have t: "truthy (Some ''High'') = truthy (Some ''Low'')"
    by (simp add: truthy_def)
  have c: "connect_result (pg_driver sample_db reject_other) = None"
    by (simp add: pg_driver_fields)
  from sql_text_independent_of_values
         [of "pg_driver sample_db reject_other" "''ASML''" _ _ _ _ _ "Some ''High''" "Some ''Low''"]
       t c
  show ?thesis by blast
qed

section \<open>Shape of the results\<close>

text \<open>
  C6.  For every search string: when the connection is made, the query yields the rows
  \<open>rows\<close> and the transaction ends without error, \<open>get_customer_info\<close> returns the
  one-element list with the entry \<open>message\<close>: \<open>No customer found matching '<search>'\<close>
  if \<open>rows\<close> is empty, and \<open>rows\<close> itself otherwise; on no driver and for no search
  string does it return the empty list.
\<close>

theorem get_customer_info_shape:
  "(connect_result drv = None \<and>
    execute_result drv get_customer_info_sql
      [PText (''%'' @ search @ ''%''), PText (''%'' @ search @ ''%'')] = Inr (Inr rows) \<and>
    exit_result drv False = None \<longrightarrow>
      fst (get_customer_info drv search) =
        Inr (if rows = []
             then [[(''message'',
                     TextV (''No customer found matching '' @ [CHR 0x27] @ search @ [CHR 0x27]))]]
             else rows)) \<and>
   fst (get_customer_info drv search) \<noteq> Inr []"
  by (auto simp add: get_customer_info_def fst_with_connection fst_with_cursor
      get_customer_info_request_def execute_fetchall_def no_customer_found_def Let_def
      split: option.splits sum.splits prod.splits)

text \<open>The theorem on the sample database, for a search value that matches no
  customer.\<close>

theorem get_customer_info_shape_witness:
  "connect_result (pg_driver sample_db reject_other) = None \<and>
   execute_result (pg_driver sample_db reject_other) get_customer_info_sql
     [PText (''%'' @ ''zzz'' @ ''%''), PText (''%'' @ ''zzz'' @ ''%'')] = Inr (Inr []) \<and>
   exit_result (pg_driver sample_db reject_other) False = None \<and>
   fst (get_customer_info (pg_driver sample_db reject_other) ''zzz'') =
     Inr [[(''message'',
            TextV (''No customer found matching '' @ [CHR 0x27] @ ''zzz'' @ [CHR 0x27]))]]"
proof -
  have c: "connect_result (pg_driver sample_db reject_other) = None"
    by (simp add: pg_driver_fields)
  have x: "exit_result (pg_driver sample_db reject_other) False = None"
    by (simp add: pg_driver_fields)
  have r: "customer_info_rows sample_db (''%'' @ ''zzz'' @ ''%'') (''%'' @ ''zzz'' @ ''%'') = []"
    by code_simp
  have e: "execute_result (pg_driver sample_db reject_other) get_customer_info_sql
     [PText (''%'' @ ''zzz'' @ ''%''), PText (''%'' @ ''zzz'' @ ''%'')] = Inr (Inr [])"
    unfolding pg_driver_fields pg_execute_info r by (rule refl)
  from get_customer_info_shape [of "pg_driver sample_db reject_other" "''zzz''" "[]"] c e x
  show ?thesis by simp
qed

text \<open>
  C7.  For every customer name: when the connection is made, the query yields the rows
  \<open>rows\<close> (each with the column \<open>health_score\<close>, which the query selects) and the
  transaction ends without error, \<open>get_customer_health_score\<close> returns the
  dictionary with the entry \<open>error\<close>: \<open>No customer found matching '<customer_name>'\<close>
  if there is no row, and otherwise the first row alone, however many rows there are.
\<close>

theorem get_customer_health_score_shape:
  "(connect_result drv = None \<and>
    execute_result drv get_customer_health_score_sql
      [PText (''%'' @ customer_name @ ''%'')] = Inr (Inr rows) \<and>
    exit_result drv False = None \<and>
    (\<forall>r \<in> set rows. map_of r ''health_score'' \<noteq> None) \<longrightarrow>
      fst (get_customer_health_score drv customer_name) =
        Inr (case rows of
               [] \<Rightarrow> [(''error'',
                       TextV (''No customer found matching '' @ [CHR 0x27] @ customer_name @ [CHR 0x27]))]
             | r # _ \<Rightarrow> r))"
  by (auto simp add: get_customer_health_score_def fst_with_connection fst_with_cursor
      get_customer_health_score_request_def execute_fetchone_def no_customer_found_def
      split: option.splits sum.splits prod.splits list.splits)

text \<open>The theorem on the sample database, for the name \<open>"a"\<close>, which matches both
  customers: the result is the row of the first one.\<close>

theorem get_customer_health_score_shape_witness:
  "connect_result (pg_driver sample_db reject_other) = None \<and>
   execute_result (pg_driver sample_db reject_other) get_customer_health_score_sql
     [PText (''%'' @ ''a'' @ ''%'')] = Inr (Inr (health_rows sample_db (''%'' @ ''a'' @ ''%''))) \<and>
   exit_result (pg_driver sample_db reject_other) False = None \<and>
   length (health_rows sample_db (''%'' @ ''a'' @ ''%'')) = 2 \<and>
   fst (get_customer_health_score (pg_driver sample_db reject_other) ''a'') =
     Inr (hd (health_rows sample_db (''%'' @ ''a'' @ ''%'')))"
proof -
  have c: "connect_result (pg_driver sample_db reject_other) = None"
    by (simp add: pg_driver_fields)
  have x: "exit_result (pg_driver sample_db reject_other) False = None"
    by (simp add: pg_driver_fields)
  have e: "execute_result (pg_driver sample_db reject_other) get_customer_health_score_sql
     [PText (''%'' @ ''a'' @ ''%'')] = Inr (Inr (health_rows sample_db (''%'' @ ''a'' @ ''%'')))"
    unfolding pg_driver_fields pg_execute_health by (rule refl)
  have k: "\<forall>r \<in> set (health_rows sample_db (''%'' @ ''a'' @ ''%'')). map_of r ''health_score'' \<noteq> None"
    by (rule health_rows_have_score)
  have l: "length (health_rows sample_db (''%'' @ ''a'' @ ''%'')) = 2"
    by code_simp
  then have h: "(case health_rows sample_db (''%'' @ ''a'' @ ''%'') of
                   [] \<Rightarrow> [(''error'',
                           TextV (''No customer found matching '' @ [CHR 0x27] @ ''a'' @ [CHR 0x27]))]
                 | r # _ \<Rightarrow> r) = hd (health_rows sample_db (''%'' @ ''a'' @ ''%''))"
    by (cases "health_rows sample_db (''%'' @ ''a'' @ ''%'')") simp_all
  from get_customer_health_score_shape
         [of "pg_driver sample_db reject_other" "''a''" "health_rows sample_db (''%'' @ ''a'' @ ''%'')"]
       c e x k
  have "fst (get_customer_health_score (pg_driver sample_db reject_other) ''a'') =
     Inr (case health_rows sample_db (''%'' @ ''a'' @ ''%'') of
            [] \<Rightarrow> [(''error'',
                    TextV (''No customer found matching '' @ [CHR 0x27] @ ''a'' @ [CHR 0x27]))]
          | r # _ \<Rightarrow> r)"
    by blast
  with h c e x k l show ?thesis by simp
qed

section \<open>The priority filter of \<open>get_open_tickets\<close>\<close>

text \<open>
  C9.  \<open>get_open_tickets\<close> called with the empty string as priority behaves as it
  does with the priority omitted, on every driver: the same result and the same calls,
  the query text without the priority clause and no bound parameter.
\<close>

theorem get_open_tickets_empty_priority:
  "get_open_tickets drv (Some []) = get_open_tickets drv None \<and>
   get_open_tickets_request (Some []) =
     (get_open_tickets_sql @ '' ORDER BY t.priority DESC, t.created_at ASC'', []) \<and>
   get_open_tickets_request None =
     (get_open_tickets_sql @ '' ORDER BY t.priority DESC, t.created_at ASC'', [])"
  by (simp add: get_open_tickets_def get_open_tickets_request_def truthy_def)

lemma set_open_tickets_join:
  "set (open_tickets_join db pr) =
     {(t, c). t \<in> set (support_tickets db) \<and> c \<in> set (customers db) \<and>
              t_customer_id t = c_id c \<and>
              (t_status t = ''Open'' \<or> t_status t = ''In Progress'') \<and>
              (case pr of None \<Rightarrow> True | Some p \<Rightarrow> t_priority t = p)}"
  by (auto simp add: open_tickets_join_def is_open_def)

lemma set_open_tickets_rows:
  "set (open_tickets_rows db pr) = open_ticket_row db ` set (open_tickets_join db pr)"
  by (simp add: open_tickets_rows_def set_order_by)

lemma open_ticket_row_columns:
  "map_of (open_ticket_row db (t, c)) ''priority'' = Some (TextV (t_priority t))"
  "map_of (open_ticket_row db (t, c)) ''status'' = Some (TextV (t_status t))"
  by (simp_all add: open_ticket_row_def)

lemma fst_get_open_tickets_pg:
  "fst (get_open_tickets (pg_driver db other) pr) =
     Inr (open_tickets_rows db (if truthy pr then pr else None))"
  by (cases pr)
     (simp_all add: get_open_tickets_def get_open_tickets_request_def truthy_def
        fst_with_connection fst_with_cursor fst_execute_fetchall pg_driver_def
        pg_execute_open_all pg_execute_open_priority)

text \<open>
  C8.  On every database: \<open>get_open_tickets\<close> without a priority returns the joined
  ticket rows whose status is \<open>Open\<close> or \<open>In Progress\<close>, with no condition on the
  priority; with a non-empty priority \<open>p\<close> it returns those of them whose priority is
  \<open>p\<close>, so every returned row has priority \<open>p\<close> and an open status, and the rows
  returned are among the rows returned without a priority.
\<close>

theorem open_tickets_priority_subset:
  "fst (get_open_tickets (pg_driver db other) None) = Inr (open_tickets_rows db None) \<and>
   set (open_tickets_rows db None) =
     open_ticket_row db `
       {(t, c). t \<in> set (support_tickets db) \<and> c \<in> set (customers db) \<and>
                t_customer_id t = c_id c \<and>
                (t_status t = ''Open'' \<or> t_status t = ''In Progress'')} \<and>
   (p \<noteq> [] \<longrightarrow>
      fst (get_open_tickets (pg_driver db other) (Some p)) = Inr (open_tickets_rows db (Some p)) \<and>
      set (open_tickets_rows db (Some p)) =
        open_ticket_row db `
          {(t, c). t \<in> set (support_tickets db) \<and> c \<in> set (customers db) \<and>
                   t_customer_id t = c_id c \<and>
                   (t_status t = ''Open'' \<or> t_status t = ''In Progress'') \<and>
                   t_priority t = p} \<and>
      (\<forall>r \<in> set (open_tickets_rows db (Some p)).
         map_of r ''priority'' = Some (TextV p) \<and>
         (map_of r ''status'' = Some (TextV ''Open'') \<or>
          map_of r ''status'' = Some (TextV ''In Progress''))) \<and>
      set (open_tickets_rows db (Some p)) \<subseteq> set (open_tickets_rows db None))"
proof -
  have a: "fst (get_open_tickets (pg_driver db other) None) = Inr (open_tickets_rows db None)"
    by (simp add: fst_get_open_tickets_pg truthy_def)
  have b: "set (open_tickets_rows db None) =
     open_ticket_row db `
       {(t, c). t \<in> set (support_tickets db) \<and> c \<in> set (customers db) \<and>
                t_customer_id t = c_id c \<and>
                (t_status t = ''Open'' \<or> t_status t = ''In Progress'')}"
    by (simp add: set_open_tickets_rows set_open_tickets_join)
  have c: "fst (get_open_tickets (pg_driver db other) (Some p)) = Inr (open_tickets_rows db (Some p))"
    if "p \<noteq> []"
    using that by (simp add: fst_get_open_tickets_pg truthy_def)
  have d: "set (open_tickets_rows db (Some p)) =
        open_ticket_row db `
          {(t, c). t \<in> set (support_tickets db) \<and> c \<in> set (customers db) \<and>
                   t_customer_id t = c_id c \<and>
                   (t_status t = ''Open'' \<or> t_status t = ''In Progress'') \<and>
                   t_priority t = p}"
    by (simp add: set_open_tickets_rows set_open_tickets_join)
  have e: "\<forall>r \<in> set (open_tickets_rows db (Some p)).
         map_of r ''priority'' = Some (TextV p) \<and>
         (map_of r ''status'' = Some (TextV ''Open'') \<or>
          map_of r ''status'' = Some (TextV ''In Progress''))"
    unfolding d using open_ticket_row_columns by auto
  have f: "set (open_tickets_rows db (Some p)) \<subseteq> set (open_tickets_rows db None)"
    unfolding b d by auto
  from a b c d e f show ?thesis by blast
qed

text \<open>The theorem on the sample database for the priority \<open>"High"\<close>, which selects
  at least one ticket.\<close>

theorem open_tickets_priority_subset_witness:
  "''High'' \<noteq> [] \<and>
   open_tickets_rows sample_db (Some ''High'') \<noteq> [] \<and>
   fst (get_open_tickets (pg_driver sample_db reject_other) (Some ''High'')) =
     Inr (open_tickets_rows sample_db (Some ''High'')) \<and>
   set (open_tickets_rows sample_db (Some ''High'')) \<subseteq> set (open_tickets_rows sample_db None)"
proof -
  have h: "''High'' \<noteq> []" by simp
  have n: "open_tickets_rows sample_db (Some ''High'') \<noteq> []" by code_simp
  from open_tickets_priority_subset [of sample_db reject_other "''High''"] h n show ?thesis by blast
qed

section \<open>Wildcards in the search value\<close>

lemma customer_info_rows_all:
  "customer_info_rows db (''%'' @ ''%'' @ ''%'') (''%'' @ ''%'' @ ''%'') =
     map (customer_info_row db) (order_by_desc c_mrr (customers db))"
  by (simp add: customer_info_rows_def ilike_percent)

lemma health_rows_all:
  "health_rows db (''%'' @ ''%'' @ ''%'') = map (health_row db) (customers db)"
  by (simp add: health_rows_def ilike_percent)

lemma fst_get_customer_info_pg:
  "fst (get_customer_info (pg_driver db other) search) =
     Inr (let rows = customer_info_rows db (''%'' @ search @ ''%'') (''%'' @ search @ ''%'')
          in if rows = [] then [[(''message'', TextV (no_customer_found search))]] else rows)"
  by (simp add: get_customer_info_def get_customer_info_request_def Let_def
      fst_with_connection fst_with_cursor execute_fetchall_def pg_driver_def pg_execute_info)

lemma health_row_no_error: "health_row db c \<noteq> [(''error'', v)]"
  by (simp add: health_row_def Let_def)

lemma customer_info_row_no_message: "customer_info_row db c \<noteq> [(''message'', v)]"
  by (simp add: customer_info_row_def customer_columns_def Let_def)

lemma fst_get_customer_health_score_pg:
  "fst (get_customer_health_score (pg_driver db other) n) =
     Inr (case health_rows db (''%'' @ n @ ''%'') of
            [] \<Rightarrow> [(''error'', TextV (no_customer_found n))]
          | r # _ \<Rightarrow> r)"
proof -
  have "map_of r ''health_score'' \<noteq> None" if "r \<in> set (health_rows db (''%'' @ n @ ''%''))" for r
  proof -
    from that obtain c where "r = health_row db c" by (auto simp add: health_rows_def)
    then show ?thesis using health_row_has_score [of db c] by simp
  qed
  then have "\<forall>r \<in> set (health_rows db (''%'' @ n @ ''%'')). map_of r ''health_score'' \<noteq> None"
    by blast
  then show ?thesis
    by (auto simp add: get_customer_health_score_def get_customer_health_score_request_def
      fst_with_connection fst_with_cursor execute_fetchone_def pg_driver_def pg_execute_health
      split: list.splits)
qed

text \<open>
  C10.  The pattern bound by \<open>get_customer_info\<close> and \<open>get_customer_health_score\<close>
  is \<open>%\<close>, the input as it is, \<open>%\<close>: wildcard characters in the input are not
  escaped.  The pattern built from the input \<open>%\<close> matches every name; so on every
  database with at least one customer \<open>get_customer_info\<close> returns one row for each
  customer and \<open>get_customer_health_score\<close> returns the row of a customer, and
  neither returns its no-customer-found value.  The input \<open>_\<close> matches the name
  \<open>ASML\<close>, which holds no underscore.
\<close>

theorem wildcard_search_matches_every_customer:
  "snd (get_customer_info_request search) =
     [PText (''%'' @ search @ ''%''), PText (''%'' @ search @ ''%'')] \<and>
   snd (get_customer_health_score_request search) = [PText (''%'' @ search @ ''%'')] \<and>
   ilike name (''%'' @ ''%'' @ ''%'') \<and>
   (customers db \<noteq> [] \<longrightarrow>
      (\<exists>rows. fst (get_customer_info (pg_driver db other) ''%'') = Inr rows \<and>
              set rows = customer_info_row db ` set (customers db) \<and>
              length rows = length (customers db)) \<and>
      fst (get_customer_info (pg_driver db other) ''%'') \<noteq>
        Inr [[(''message'', TextV (no_customer_found ''%''))]] \<and>
      (\<exists>c \<in> set (customers db).
         fst (get_customer_health_score (pg_driver db other) ''%'') = Inr (health_row db c)) \<and>
      fst (get_customer_health_score (pg_driver db other) ''%'') \<noteq>
        Inr [(''error'', TextV (no_customer_found ''%''))]) \<and>
   ilike ''ASML'' (''%'' @ ''_'' @ ''%'') \<and> \<not> str_in (str_lower ''_'') (str_lower ''ASML'')"
proof -
  have a: "snd (get_customer_info_request search) =
     [PText (''%'' @ search @ ''%''), PText (''%'' @ search @ ''%'')]"
    by (simp add: get_customer_info_request_def Let_def)
  have b: "snd (get_customer_health_score_request search) = [PText (''%'' @ search @ ''%'')]"
    by (simp add: get_customer_health_score_request_def)
  have c: "ilike name (''%'' @ ''%'' @ ''%'')"
    by (simp add: ilike_percent)
  have w: "ilike ''ASML'' (''%'' @ ''_'' @ ''%'') \<and> \<not> str_in (str_lower ''_'') (str_lower ''ASML'')"
    by code_simp
  have d: "(\<exists>rows. fst (get_customer_info (pg_driver db other) ''%'') = Inr rows \<and>
              set rows = customer_info_row db ` set (customers db) \<and>
              length rows = length (customers db)) \<and>
      fst (get_customer_info (pg_driver db other) ''%'') \<noteq>
        Inr [[(''message'', TextV (no_customer_found ''%''))]] \<and>
      (\<exists>c \<in> set (customers db).
         fst (get_customer_health_score (pg_driver db other) ''%'') = Inr (health_row db c)) \<and>
      fst (get_customer_health_score (pg_driver db other) ''%'') \<noteq>
        Inr [(''error'', TextV (no_customer_found ''%''))]"
    if ne: "customers db \<noteq> []"
  proof -
    let ?rows = "map (customer_info_row db) (order_by_desc c_mrr (customers db))"
    have len: "length ?rows = length (customers db)"
      by (simp add: length_order_by)
    with ne have rne: "?rows \<noteq> []" by auto
    have info: "fst (get_customer_info (pg_driver db other) ''%'') = Inr ?rows"
      using rne by (simp only: fst_get_customer_info_pg customer_info_rows_all Let_def if_False)
    have nomsg: "?rows \<noteq> [[(''message'', TextV (no_customer_found ''%''))]]"
    proof
      assume eq: "?rows = [[(''message'', TextV (no_customer_found ''%''))]]"
      then obtain c where "customer_info_row db c = [(''message'', TextV (no_customer_found ''%''))]"
        by (auto simp add: map_eq_Cons_conv)
      then show False using customer_info_row_no_message by blast
    qed
    obtain c0 cs where cs: "customers db = c0 # cs" using ne by (cases "customers db") auto
    have health: "fst (get_customer_health_score (pg_driver db other) ''%'') =
        Inr (health_row db (hd (customers db)))"
      by (simp only: fst_get_customer_health_score_pg health_rows_all) (simp add: cs)
    have noerr: "health_row db (hd (customers db)) \<noteq> [(''error'', TextV (no_customer_found ''%''))]"
      by (rule health_row_no_error)
    have members: "set ?rows = customer_info_row db ` set (customers db)"
      by (simp add: set_order_by)
    have first: "hd (customers db) \<in> set (customers db)"
      using ne by simp
    from info members len have part1: "\<exists>rows. fst (get_customer_info (pg_driver db other) ''%'') = Inr rows \<and>
              set rows = customer_info_row db ` set (customers db) \<and>
              length rows = length (customers db)"
      by blast
    from info nomsg have part2: "fst (get_customer_info (pg_driver db other) ''%'') \<noteq>
        Inr [[(''message'', TextV (no_customer_found ''%''))]]"
      by simp
    from health first have part3: "\<exists>c \<in> set (customers db).
         fst (get_customer_health_score (pg_driver db other) ''%'') = Inr (health_row db c)"
      by blast
    from health noerr have part4: "fst (get_customer_health_score (pg_driver db other) ''%'') \<noteq>
        Inr [(''error'', TextV (no_customer_found ''%''))]"
      by simp
    from part1 part2 part3 part4 show ?thesis by blast
  qed
  from a b c d w show ?thesis by blast
qed

text \<open>The theorem on the sample database, which has two customers.\<close>

theorem wildcard_search_matches_every_customer_witness:
  "customers sample_db \<noteq> [] \<and>
   length (customers sample_db) = 2 \<and>
   (\<exists>rows. fst (get_customer_info (pg_driver sample_db reject_other) ''%'') = Inr rows \<and>
            length rows = 2) \<and>
   fst (get_customer_health_score (pg_driver sample_db reject_other) ''%'') \<noteq>
     Inr [(''error'', TextV (no_customer_found ''%''))]"
proof -
  have h: "customers sample_db \<noteq> []" by (simp add: sample_db_def)
  have l: "length (customers sample_db) = 2" by (simp add: sample_db_def)
  from wildcard_search_matches_every_customer [of "''%''" "''ASML''" sample_db reject_other] h
  have "(\<exists>rows. fst (get_customer_info (pg_driver sample_db reject_other) ''%'') = Inr rows \<and>
              set rows = customer_info_row sample_db ` set (customers sample_db) \<and>
              length rows = length (customers sample_db))"
    and "fst (get_customer_health_score (pg_driver sample_db reject_other) ''%'') \<noteq>
           Inr [(''error'', TextV (no_customer_found ''%''))]"
    by blast+
  with h l show ?thesis by auto
qed

end
